theory Spec2Isabelle
  imports Complex_Main
begin

section \<open>Numbers\<close>

text \<open>
  The wallet code computes with JavaScript numbers. They are modelled as exact real numbers:
  \<open>Math.round\<close> rounds to the nearest integer with ties towards plus infinity, and
  \<open>Number.EPSILON\<close> is \<open>2\<^sup>-\<^sup>5\<^sup>2\<close>. Binary floating-point representation error is not
  part of the model.
\<close>

definition Math_round :: "real \<Rightarrow> real" where
  "Math_round x = of_int \<lfloor>x + 1 / 2\<rfloor>"

definition Number_EPSILON :: real where
  "Number_EPSILON = 1 / 2 ^ 52"

text \<open>\<^verbatim>\<open>Math.round((x + Number.EPSILON) * 100) / 100\<close>, the rounding applied at the
  balance mutations of the withdrawal route.\<close>

definition round_cents :: "real \<Rightarrow> real" where
  "round_cents x = Math_round ((x + Number_EPSILON) * 100) / 100"

text \<open>A whole number of minor units (two decimals).\<close>

definition whole_cents :: "real \<Rightarrow> bool" where
  "whole_cents x = (of_int \<lfloor>x * 100\<rfloor> = x * 100)"

subsection \<open>Withdrawal fee (routes/wallet.ts, lines 304-308)\<close>

definition percentFee :: "real \<Rightarrow> real" where
  "percentFee amount = Math_round (amount * (25 / 1000) * 100) / 100"

definition fixedFee :: real where
  "fixedFee = 100"

definition fee :: "real \<Rightarrow> real" where
  "fee amount = percentFee amount + fixedFee"

definition net :: "real \<Rightarrow> real" where
  "net amount = max 0 (Math_round ((amount - fee amount) * 100) / 100)"




section \<open>Data model\<close>

text \<open>Primary keys are generated UUIDs in the source; here a key is a natural number,
  and a freshly inserted row receives the next unused one.\<close>

type_synonym uuid = nat

datatype TransactionType =
  DEPOSIT | WITHDRAWAL | CONTEST_PRIZE | CONTEST_CREATION | CONTEST_BOOST
  | PLATFORM_FEE | WITHDRAWAL_FEE | TRANSFER

datatype TransactionStatus = PENDING | COMPLETED | FAILED | CANCELLED

datatype EntryType = credit | debit

record Wallet =
  w_id :: uuid
  w_user_id :: uuid
  balance :: real
  pending_balance :: real
  total_deposited :: real

record Transaction =
  tx_id :: uuid
  tx_wallet_id :: uuid
  tx_user_id :: uuid
  tx_amount :: real
  transaction_type :: TransactionType
  tx_status :: TransactionStatus
  tx_description :: string
  tx_reference :: "string option"

record WalletLedger =
  led_wallet_id :: uuid
  led_user_id :: uuid
  entry_type :: EntryType
  led_amount :: real
  balance_after :: real
  led_reference :: "string option"
  led_transaction_id :: uuid
  led_context :: string

record Withdrawal =
  wd_id :: uuid
  wd_user_id :: uuid
  bank_account_name :: string
  bank_account_number :: string
  wd_bank_name :: string
  wd_bank_code :: string
  wd_amount :: real
  wd_fee :: real
  net_amount :: real
  wd_status :: string
  admin_notes :: "string option"
  external_reference :: "string option"
  wd_transaction_id :: uuid

record BankAccount =
  ba_id :: uuid
  ba_user_id :: uuid
  account_name :: string
  account_number :: string
  bank_name :: string
  bank_code :: string

text \<open>The persisted state: one list of rows per table, in insertion order. Of each entity
  the columns the wallet flows read or write are kept; timestamps, currency and the JSON
  metadata are left out.\<close>

record database =
  users :: "uuid list"
  wallets :: "Wallet list"
  transactions :: "Transaction list"
  wallet_ledger :: "WalletLedger list"
  withdrawals :: "Withdrawal list"
  bank_accounts :: "BankAccount list"

text \<open>Every \<^verbatim>\<open>save\<close> and every \<^verbatim>\<open>commitTransaction\<close> of the source may throw.
  Which ones do is an input of the model: one flag per call site.\<close>

datatype write_site =
  CreateWallet_save
  | Verify_wallet_save | Verify_tx_save | Verify_ledger_save
  | Fallback_wallet_save | Fallback_tx_save | Fallback_ledger_save
  | Hold_wallet_save | Hold_tx_save | Hold_ledger_save | Hold_commit
  | Withdrawal_save
  | Refund_wallet_save | Refund_withdrawal_save | Refund_tx_save | Refund_ledger_save
  | Refund_commit
  | Settle_wallet_save | Settle_tx_save | Settle_withdrawal_save | Settle_feeTx_save
  | Settle_ledSettle_save | Settle_ledFee_save | Settle_commit
  | Service_wallet_save | Service_toWallet_save | Service_tx_save | Service_toTx_save

type_synonym faults = "write_site \<Rightarrow> bool"

definition no_faults :: faults where
  "no_faults = (\<lambda>_. False)"

datatype response = Success nat | Failure nat string

section \<open>Thrown errors\<close>

text \<open>A computation that may throw returns \<open>Inl\<close> of the error message.\<close>

type_synonym 'a result = "string + 'a"

definition bind_result :: "'a result \<Rightarrow> ('a \<Rightarrow> 'b result) \<Rightarrow> 'b result" where
  "bind_result m f = (case m of Inl e \<Rightarrow> Inl e | Inr x \<Rightarrow> f x)"

text \<open>\<^verbatim>\<open>s || dflt\<close> on an optional string: the empty string is falsy.\<close>

definition or_default :: "string option \<Rightarrow> string \<Rightarrow> string" where
  "or_default s dflt = (case s of None \<Rightarrow> dflt | Some v \<Rightarrow> if v = [] then dflt else v)"

text \<open>\<^verbatim>\<open>x || 0\<close> on an optional number.\<close>

definition or_zero :: "real option \<Rightarrow> real" where
  "or_zero x = (case x of None \<Rightarrow> 0 | Some v \<Rightarrow> v)"

definition truthy_str :: "string option \<Rightarrow> bool" where
  "truthy_str s = (case s of None \<Rightarrow> False | Some v \<Rightarrow> v \<noteq> [])"

definition truthy_num :: "real option \<Rightarrow> bool" where
  "truthy_num x = (case x of None \<Rightarrow> False | Some v \<Rightarrow> v \<noteq> 0)"

section \<open>Repositories\<close>

text \<open>\<^verbatim>\<open>findOne\<close> returns the first matching row. \<^verbatim>\<open>save\<close> of an entity that has
  a primary key overwrites the row with that key; \<^verbatim>\<open>save\<close> of a new entity appends a
  row under a fresh key. The first argument says whether the call throws.\<close>

definition findWalletByUserId :: "database \<Rightarrow> uuid \<Rightarrow> Wallet option" where
  "findWalletByUserId db u = find (\<lambda>w. w_user_id w = u) (wallets db)"

definition findWalletById :: "database \<Rightarrow> uuid \<Rightarrow> Wallet option" where
  "findWalletById db i = find (\<lambda>w. w_id w = i) (wallets db)"

definition findBankAccount :: "database \<Rightarrow> uuid \<Rightarrow> uuid \<Rightarrow> BankAccount option" where
  "findBankAccount db i u = find (\<lambda>a. ba_id a = i \<and> ba_user_id a = u) (bank_accounts db)"

definition findPendingTx :: "database \<Rightarrow> uuid \<Rightarrow> string \<Rightarrow> Transaction option" where
  "findPendingTx db u r =
     find (\<lambda>t. tx_user_id t = u \<and> tx_reference t = Some r \<and> tx_status t = PENDING)
       (transactions db)"

definition save_wallet :: "bool \<Rightarrow> database \<Rightarrow> Wallet \<Rightarrow> database result" where
  "save_wallet throws db w =
     (if throws then Inl ''QueryFailedError''
      else Inr (db\<lparr>wallets := map (\<lambda>r. if w_id r = w_id w then w else r) (wallets db)\<rparr>))"

definition insert_wallet :: "bool \<Rightarrow> database \<Rightarrow> Wallet \<Rightarrow> (database \<times> Wallet) result" where
  "insert_wallet throws db w =
     (if throws then Inl ''QueryFailedError''
      else let saved = w\<lparr>w_id := length (wallets db)\<rparr>
           in Inr (db\<lparr>wallets := wallets db @ [saved]\<rparr>, saved))"

definition save_transaction :: "bool \<Rightarrow> database \<Rightarrow> Transaction \<Rightarrow> database result" where
  "save_transaction throws db t =
     (if throws then Inl ''QueryFailedError''
      else Inr (db\<lparr>transactions :=
                  map (\<lambda>r. if tx_id r = tx_id t then t else r) (transactions db)\<rparr>))"

definition insert_transaction ::
  "bool \<Rightarrow> database \<Rightarrow> Transaction \<Rightarrow> (database \<times> Transaction) result" where
  "insert_transaction throws db t =
     (if throws then Inl ''QueryFailedError''
      else let saved = t\<lparr>tx_id := length (transactions db)\<rparr>
           in Inr (db\<lparr>transactions := transactions db @ [saved]\<rparr>, saved))"

definition insert_ledger :: "bool \<Rightarrow> database \<Rightarrow> WalletLedger \<Rightarrow> database result" where
  "insert_ledger throws db l =
     (if throws then Inl ''QueryFailedError''
      else Inr (db\<lparr>wallet_ledger := wallet_ledger db @ [l]\<rparr>))"

definition save_withdrawal :: "bool \<Rightarrow> database \<Rightarrow> Withdrawal \<Rightarrow> database result" where
  "save_withdrawal throws db wd =
     (if throws then Inl ''QueryFailedError''
      else Inr (db\<lparr>withdrawals :=
                  map (\<lambda>r. if wd_id r = wd_id wd then wd else r) (withdrawals db)\<rparr>))"

definition insert_withdrawal ::
  "bool \<Rightarrow> database \<Rightarrow> Withdrawal \<Rightarrow> (database \<times> Withdrawal) result" where
  "insert_withdrawal throws db wd =
     (if throws then Inl ''QueryFailedError''
      else let saved = wd\<lparr>wd_id := length (withdrawals db)\<rparr>
           in Inr (db\<lparr>withdrawals := withdrawals db @ [saved]\<rparr>, saved))"

definition commitTransaction :: "bool \<Rightarrow> database \<Rightarrow> database result" where
  "commitTransaction throws db = (if throws then Inl ''QueryFailedError'' else Inr db)"

section \<open>WalletService (services/walletService.ts)\<close>

text \<open>The service methods run outside any database transaction: a write that has
  succeeded stays when a later one throws. They return the database as it is left and
  either the thrown error or the result.\<close>

definition createWallet :: "faults \<Rightarrow> database \<Rightarrow> uuid \<Rightarrow> database \<times> Wallet result" where
  "createWallet F db userId =
     (case findWalletByUserId db userId of
        Some existingWallet \<Rightarrow> (db, Inr existingWallet)
      | None \<Rightarrow>
          (case insert_wallet (F CreateWallet_save) db
                  \<lparr>w_id = 0, w_user_id = userId, balance = 0, pending_balance = 0,
                   total_deposited = 0\<rparr> of
             Inl e \<Rightarrow> (db, Inl e)
           | Inr (db', wallet) \<Rightarrow> (db', Inr wallet)))"

definition getWalletByUserId :: "faults \<Rightarrow> database \<Rightarrow> uuid \<Rightarrow> database \<times> Wallet result" where
  "getWalletByUserId F db userId =
     (if userId \<notin> set (users db) then (db, Inl ''User not found'')
      else case findWalletByUserId db userId of
             Some wallet \<Rightarrow> (db, Inr wallet)
           | None \<Rightarrow> createWallet F db userId)"

definition new_transaction ::
  "Wallet \<Rightarrow> uuid \<Rightarrow> real \<Rightarrow> TransactionType \<Rightarrow> TransactionStatus \<Rightarrow> string \<Rightarrow> Transaction" where
  "new_transaction wallet userId amount ty st descr =
     \<lparr>tx_id = 0, tx_wallet_id = w_id wallet, tx_user_id = userId, tx_amount = amount,
      transaction_type = ty, tx_status = st, tx_description = descr, tx_reference = None\<rparr>"

definition addFunds ::
  "faults \<Rightarrow> database \<Rightarrow> uuid \<Rightarrow> real \<Rightarrow> string \<Rightarrow> database \<times> unit result" where
  "addFunds F db userId amount paymentMethod =
     (case getWalletByUserId F db userId of
        (db0, Inl e) \<Rightarrow> (db0, Inl e)
      | (db0, Inr wallet) \<Rightarrow>
          let wallet' = wallet\<lparr>balance := balance wallet + amount,
                               total_deposited := total_deposited wallet + amount\<rparr>
          in (case save_wallet (F Service_wallet_save) db0 wallet' of
               Inl e \<Rightarrow> (db0, Inl e)
             | Inr db1 \<Rightarrow>
                 (case insert_transaction (F Service_tx_save) db1
                         (new_transaction wallet' userId amount DEPOSIT COMPLETED
                            (''Deposit via '' @ paymentMethod)) of
                    Inl e \<Rightarrow> (db1, Inl e)
                  | Inr (db2, _) \<Rightarrow> (db2, Inr ()))))"

definition withdrawFunds ::
  "faults \<Rightarrow> database \<Rightarrow> uuid \<Rightarrow> real \<Rightarrow> string \<Rightarrow> string \<Rightarrow> database \<times> unit result" where
  "withdrawFunds F db userId amount bankName accountNumber =
     (case getWalletByUserId F db userId of
        (db0, Inl e) \<Rightarrow> (db0, Inl e)
      | (db0, Inr wallet) \<Rightarrow>
          if balance wallet < amount then (db0, Inl ''Insufficient balance'')
          else
            let wallet' = wallet\<lparr>balance := balance wallet - amount\<rparr>
            in (case save_wallet (F Service_wallet_save) db0 wallet' of
                 Inl e \<Rightarrow> (db0, Inl e)
               | Inr db1 \<Rightarrow>
                   (case insert_transaction (F Service_tx_save) db1
                           (new_transaction wallet' userId amount WITHDRAWAL PENDING
                              (''Withdrawal to '' @ bankName @ '' - '' @ accountNumber)) of
                      Inl e \<Rightarrow> (db1, Inl e)
                    | Inr (db2, _) \<Rightarrow> (db2, Inr ()))))"

text \<open>\<^verbatim>\<open>transferFunds\<close> loads both wallets before it writes either, so with
  \<open>fromUserId = toUserId\<close> the second write starts from the balance read at the start.
  The default descriptions of the source end with the other user's id, left out here.\<close>

definition transferFunds ::
  "faults \<Rightarrow> database \<Rightarrow> uuid \<Rightarrow> uuid \<Rightarrow> real \<Rightarrow> string option \<Rightarrow> database \<times> unit result" where
  "transferFunds F db fromUserId toUserId amount description =
     (case getWalletByUserId F db fromUserId of
        (db0, Inl e) \<Rightarrow> (db0, Inl e)
      | (db0, Inr fromWallet) \<Rightarrow>
     (case getWalletByUserId F db0 toUserId of
        (db1, Inl e) \<Rightarrow> (db1, Inl e)
      | (db1, Inr toWallet) \<Rightarrow>
          if balance fromWallet < amount then (db1, Inl ''Insufficient balance'')
          else
            let fromWallet' = fromWallet\<lparr>balance := balance fromWallet - amount\<rparr>;
                toWallet' = toWallet\<lparr>balance := balance toWallet + amount\<rparr>
            in (case save_wallet (F Service_wallet_save) db1 fromWallet' of
                 Inl e \<Rightarrow> (db1, Inl e)
               | Inr db2 \<Rightarrow>
            (case save_wallet (F Service_toWallet_save) db2 toWallet' of
                 Inl e \<Rightarrow> (db2, Inl e)
               | Inr db3 \<Rightarrow>
            (case insert_transaction (F Service_tx_save) db3
                    (new_transaction fromWallet' fromUserId amount TRANSFER COMPLETED
                       (or_default description ''Transfer to user'')) of
                 Inl e \<Rightarrow> (db3, Inl e)
               | Inr (db4, _) \<Rightarrow>
            (case insert_transaction (F Service_toTx_save) db4
                    (new_transaction toWallet' toUserId amount TRANSFER COMPLETED
                       (or_default description ''Transfer from user'')) of
                 Inl e \<Rightarrow> (db4, Inl e)
               | Inr (db5, _) \<Rightarrow> (db5, Inr ())))))))"

section \<open>The payment gateway\<close>

text \<open>The gateway is external. What \<^verbatim>\<open>paymentService.verifyPayment\<close> and
  \<^verbatim>\<open>paymentService.initiateBankTransfer\<close> return is an input of the model.\<close>

record verify_data =
  vd_amount :: "real option"

record verify_result =
  v_success :: bool
  verified :: bool
  v_data :: "verify_data option"
  v_message :: "string option"

record transfer_data =
  transfer_code :: "string option"
  td_reference :: "string option"

record transfer_result =
  t_success :: bool
  t_data :: "transfer_data option"
  t_message :: "string option"

section \<open>POST /deposits/verify (routes/wallet.ts, lines 89-190)\<close>

record verify_body =
  reference :: string
  expectedAmount :: "real option"

text \<open>A ledger row as the handlers fill it in: \<open>balance_after\<close> is the balance of the
  wallet object just saved.\<close>

definition new_ledger ::
  "Wallet \<Rightarrow> uuid \<Rightarrow> EntryType \<Rightarrow> real \<Rightarrow> string option \<Rightarrow> uuid \<Rightarrow> string \<Rightarrow> WalletLedger" where
  "new_ledger wallet userId ty amount ref txid ctxt =
     \<lparr>led_wallet_id = w_id wallet, led_user_id = userId, entry_type = ty,
      led_amount = amount, balance_after = balance wallet, led_reference = ref,
      led_transaction_id = txid, led_context = ctxt\<rparr>"

text \<open>Lines 129-132 and 157-160: \<^verbatim>\<open>wallet.balance += amount\<close> and
  \<^verbatim>\<open>total_deposited += amount\<close>. The column always holds a number here, so the
  guard \<^verbatim>\<open>typeof total_deposited === 'number'\<close> around the second update is taken.\<close>

definition credit_wallet :: "Wallet \<Rightarrow> real \<Rightarrow> Wallet" where
  "credit_wallet wallet amount =
     wallet\<lparr>balance := balance wallet + amount,
            total_deposited := total_deposited wallet + amount\<rparr>"

text \<open>Lines 124-152: a pending transaction was recorded at initialisation.\<close>

definition verify_credit_pending ::
  "faults \<Rightarrow> database \<Rightarrow> uuid \<Rightarrow> Transaction \<Rightarrow> real \<Rightarrow> response \<times> database" where
  "verify_credit_pending F db userId pendingTx amount =
     (case findWalletByUserId db userId of
        None \<Rightarrow> (Failure 404 ''Wallet not found'', db)
      | Some wallet \<Rightarrow>
          let wallet' = credit_wallet wallet amount
          in (case save_wallet (F Verify_wallet_save) db wallet' of
               Inl e \<Rightarrow> (Failure 500 ''Internal server error'', db)
             | Inr db1 \<Rightarrow>
          (case save_transaction (F Verify_tx_save) db1
                  (pendingTx\<lparr>tx_status := COMPLETED,
                             tx_description := ''Wallet deposit completed''\<rparr>) of
               Inl e \<Rightarrow> (Failure 500 ''Internal server error'', db1)
             | Inr db2 \<Rightarrow>
          (case insert_ledger (F Verify_ledger_save) db2
                  (new_ledger wallet' userId credit amount (tx_reference pendingTx)
                     (tx_id pendingTx) ''deposit'') of
               Inl e \<Rightarrow> (Failure 500 ''Internal server error'', db2)
             | Inr db3 \<Rightarrow> (Success 200, db3)))))"

text \<open>Lines 155-185: no pending transaction; a completed one is created.\<close>

definition verify_credit_fallback ::
  "faults \<Rightarrow> database \<Rightarrow> uuid \<Rightarrow> string \<Rightarrow> real \<Rightarrow> response \<times> database" where
  "verify_credit_fallback F db userId ref amount =
     (case getWalletByUserId F db userId of
        (db0, Inl e) \<Rightarrow> (Failure 500 ''Internal server error'', db0)
      | (db0, Inr wallet) \<Rightarrow>
          let wallet' = credit_wallet wallet amount
          in (case save_wallet (F Fallback_wallet_save) db0 wallet' of
               Inl e \<Rightarrow> (Failure 500 ''Internal server error'', db0)
             | Inr db1 \<Rightarrow>
          (case insert_transaction (F Fallback_tx_save) db1
                  ((new_transaction wallet' userId amount DEPOSIT COMPLETED
                      ''Wallet deposit (no pending record)'')\<lparr>tx_reference := Some ref\<rparr>) of
               Inl e \<Rightarrow> (Failure 500 ''Internal server error'', db1)
             | Inr (db2, completed) \<Rightarrow>
          (case insert_ledger (F Fallback_ledger_save) db2
                  (new_ledger wallet' userId credit amount (Some ref) (tx_id completed)
                     ''deposit'') of
               Inl e \<Rightarrow> (Failure 500 ''Internal server error'', db2)
             | Inr db3 \<Rightarrow> (Success 200, db3)))))"

text \<open>Line 114: \<^verbatim>\<open>expectedAmount && Math.round(expectedAmount * 100) !== Math.round(amount * 100)\<close>.\<close>

definition amount_mismatch :: "real option \<Rightarrow> real \<Rightarrow> bool" where
  "amount_mismatch expected amount =
     (truthy_num expected \<and> Math_round (the expected * 100) \<noteq> Math_round (amount * 100))"

definition post_deposits_verify ::
  "faults \<Rightarrow> (string \<Rightarrow> verify_result) \<Rightarrow> database \<Rightarrow> uuid \<Rightarrow> verify_body
     \<Rightarrow> response \<times> database" where
  "post_deposits_verify F verifyPayment db userId body =
     (if reference body = [] then (Failure 400 ''Validation failed'', db)
      else
        let pendingTx = findPendingTx db userId (reference body);
            verify = verifyPayment (reference body)
        in case v_data verify of
             None \<Rightarrow> (Failure 400 (or_default (v_message verify) ''Verification failed''), db)
           | Some data \<Rightarrow>
               if \<not> v_success verify \<or> \<not> verified verify
               then (Failure 400 (or_default (v_message verify) ''Verification failed''), db)
               else
                 let amount = or_zero (vd_amount data) / 100
                 in if amount_mismatch (expectedAmount body) amount
                    then (Failure 400 ''Amount mismatch'', db)
                    else
                      (case pendingTx of
                         Some ptx \<Rightarrow>
                           if Math_round (tx_amount ptx * 100) \<noteq> Math_round (amount * 100)
                           then (Failure 400 ''Recorded amount mismatch'', db)
                           else verify_credit_pending F db userId ptx amount
                       | None \<Rightarrow> verify_credit_fallback F db userId (reference body) amount))"

section \<open>POST /withdrawals (routes/wallet.ts, lines 265-468)\<close>

record withdrawal_body =
  req_amount :: real
  req_bank_account_id :: "uuid option"
  req_bank_name :: "string option"
  req_bank_code :: "string option"
  req_account_number :: "string option"
  req_account_name :: "string option"

record accountInfo =
  ai_name :: string
  ai_number :: string
  ai_bankName :: string
  ai_bankCode :: string

text \<open>Lines 291-302. A saved account is looked up under the requesting user; a primary
  key is never the empty string, so a supplied \<open>bank_account_id\<close> is truthy.\<close>

definition inline_details_present :: "withdrawal_body \<Rightarrow> bool" where
  "inline_details_present body =
     (truthy_str (req_bank_name body) \<and> truthy_str (req_bank_code body)
      \<and> truthy_str (req_account_number body) \<and> truthy_str (req_account_name body))"

definition saved_account_info :: "BankAccount \<Rightarrow> accountInfo" where
  "saved_account_info acc =
     \<lparr>ai_name = account_name acc, ai_number = account_number acc,
      ai_bankName = bank_name acc, ai_bankCode = bank_code acc\<rparr>"

definition inline_account_info :: "withdrawal_body \<Rightarrow> accountInfo" where
  "inline_account_info body =
     \<lparr>ai_name = the (req_account_name body), ai_number = the (req_account_number body),
      ai_bankName = the (req_bank_name body), ai_bankCode = the (req_bank_code body)\<rparr>"

definition resolve_account :: "database \<Rightarrow> uuid \<Rightarrow> withdrawal_body \<Rightarrow> response + accountInfo" where
  "resolve_account db userId body =
     (case req_bank_account_id body of
        Some bank_account_id \<Rightarrow>
          (case findBankAccount db bank_account_id userId of
             None \<Rightarrow> Inl (Failure 404 ''Bank account not found'')
           | Some acc \<Rightarrow> Inr (saved_account_info acc))
      | None \<Rightarrow>
          if inline_details_present body then Inr (inline_account_info body)
          else Inl (Failure 400 ''Bank account details required''))"

text \<open>Lines 350-361: the withdrawal row.\<close>

definition new_withdrawal :: "uuid \<Rightarrow> accountInfo \<Rightarrow> real \<Rightarrow> Transaction \<Rightarrow> Withdrawal" where
  "new_withdrawal userId info amount stx =
     \<lparr>wd_id = 0, wd_user_id = userId, bank_account_name = ai_name info,
      bank_account_number = ai_number info, wd_bank_name = ai_bankName info,
      wd_bank_code = ai_bankCode info, wd_amount = amount, wd_fee = fee amount,
      net_amount = net amount, wd_status = ''processing'', admin_notes = None,
      external_reference = None, wd_transaction_id = tx_id stx\<rparr>"

text \<open>The wallet updates of the three stages (lines 319-320, 374-375 and 413).\<close>

definition hold_wallet :: "Wallet \<Rightarrow> real \<Rightarrow> Wallet" where
  "hold_wallet w amount =
     w\<lparr>balance := round_cents (balance w - amount),
       pending_balance := round_cents (pending_balance w + amount)\<rparr>"

definition refund_wallet :: "Wallet \<Rightarrow> real \<Rightarrow> Wallet" where
  "refund_wallet w amount =
     w\<lparr>balance := round_cents (balance w + amount),
       pending_balance := max 0 (round_cents (pending_balance w - amount))\<rparr>"

definition settle_wallet :: "Wallet \<Rightarrow> real \<Rightarrow> Wallet" where
  "settle_wallet w amount =
     w\<lparr>pending_balance := max 0 (round_cents (pending_balance w - amount))\<rparr>"

text \<open>Stage 1 (lines 310-348), the body of the \<^verbatim>\<open>try\<close> between
  \<^verbatim>\<open>startTransaction\<close> and \<^verbatim>\<open>commitTransaction\<close>. When it throws, the
  caller rolls back: it goes on with the database it started from.\<close>

definition stage1_hold ::
  "faults \<Rightarrow> database \<Rightarrow> uuid \<Rightarrow> Wallet \<Rightarrow> real \<Rightarrow> (database \<times> Transaction) result" where
  "stage1_hold F db userId wallet amount =
     (case findWalletById db (w_id wallet) of
        None \<Rightarrow> Inl ''Wallet not found''
      | Some w \<Rightarrow>
          if balance w < amount then Inl ''Insufficient balance''
          else
            let w' = hold_wallet w amount
            in bind_result (save_wallet (F Hold_wallet_save) db w') (\<lambda>db1.
               bind_result (insert_transaction (F Hold_tx_save) db1
                   (new_transaction w' userId amount WITHDRAWAL PENDING
                      ''Withdrawal hold placed'')) (\<lambda>(db2, savedTx).
               bind_result (insert_ledger (F Hold_ledger_save) db2
                   (new_ledger w' userId debit amount None (tx_id savedTx)
                      ''withdrawal_hold'')) (\<lambda>db3.
               bind_result (commitTransaction (F Hold_commit) db3) (\<lambda>db4.
               Inr (db4, savedTx))))))"

record wd_ctx =
  ctx_wallet :: Wallet
  ctx_amount :: real
  ctx_fee :: real
  ctx_net :: real
  ctx_account :: accountInfo
  savedTx :: Transaction
  savedWd :: Withdrawal

text \<open>Lines 273-362: everything the handler does before it calls the gateway. The result
  is either the response it ends with, or the values it carries over the call; in both
  cases with the database as it then is.\<close>

definition withdrawals_until_gateway ::
  "faults \<Rightarrow> database \<Rightarrow> uuid \<Rightarrow> withdrawal_body
     \<Rightarrow> (response \<times> database) + (wd_ctx \<times> database)" where
  "withdrawals_until_gateway F db userId body =
     (let amount = req_amount body in
      if \<not> 0 < amount then Inl (Failure 400 ''Validation failed'', db)
      else
        (case getWalletByUserId F db userId of
          (db0, Inl e) \<Rightarrow> Inl (Failure 500 ''Internal server error'', db0)
        | (db0, Inr wallet) \<Rightarrow>
            if balance wallet < amount then Inl (Failure 400 ''Insufficient balance'', db0)
            else
              (case resolve_account db0 userId body of
                Inl r \<Rightarrow> Inl (r, db0)
              | Inr info \<Rightarrow>
                  (case stage1_hold F db0 userId wallet amount of
                     Inl e \<Rightarrow> Inl (Failure 500 ''Internal server error'', db0)
                   | Inr (db1, stx) \<Rightarrow>
                       (case insert_withdrawal (F Withdrawal_save) db1
                               (new_withdrawal userId info amount stx) of
                          Inl e \<Rightarrow> Inl (Failure 500 ''Internal server error'', db1)
                        | Inr (db2, swd) \<Rightarrow>
                            Inr (\<lparr>ctx_wallet = wallet, ctx_amount = amount,
                                  ctx_fee = fee amount, ctx_net = net amount,
                                  ctx_account = info, savedTx = stx, savedWd = swd\<rparr>, db2))))))"

text \<open>Stage 2A (lines 367-402): the gateway call failed; refund the hold.\<close>

definition stage2A_refund ::
  "faults \<Rightarrow> database \<Rightarrow> uuid \<Rightarrow> wd_ctx \<Rightarrow> transfer_result \<Rightarrow> database result" where
  "stage2A_refund F db userId ctx transfer =
     (case findWalletById db (w_id (ctx_wallet ctx)) of
        None \<Rightarrow> Inl ''Wallet not found''
      | Some w \<Rightarrow>
          let amount = ctx_amount ctx;
              w' = refund_wallet w amount
          in bind_result (save_wallet (F Refund_wallet_save) db w') (\<lambda>db1.
             bind_result (save_withdrawal (F Refund_withdrawal_save) db1
                 ((savedWd ctx)\<lparr>wd_status := ''failed'',
                    admin_notes :=
                      Some (or_default (t_message transfer) ''Transfer initiation failed'')\<rparr>))
               (\<lambda>db2.
             bind_result (save_transaction (F Refund_tx_save) db2
                 ((savedTx ctx)\<lparr>tx_status := FAILED,
                    tx_description := ''Withdrawal failed (refunded)''\<rparr>)) (\<lambda>db3.
             bind_result (insert_ledger (F Refund_ledger_save) db3
                 (new_ledger w' userId credit amount None (tx_id (savedTx ctx))
                    ''withdrawal_refund'')) (\<lambda>db4.
             commitTransaction (F Refund_commit) db4)))))"

text \<open>Stage 2B (lines 406-461): the gateway call succeeded; settle.\<close>

definition stage2B_settle ::
  "faults \<Rightarrow> database \<Rightarrow> uuid \<Rightarrow> wd_ctx \<Rightarrow> transfer_data \<Rightarrow> database result" where
  "stage2B_settle F db userId ctx data =
     (case findWalletById db (w_id (ctx_wallet ctx)) of
        None \<Rightarrow> Inl ''Wallet not found''
      | Some w \<Rightarrow>
          let amount = ctx_amount ctx;
              w' = settle_wallet w amount
          in bind_result (save_wallet (F Settle_wallet_save) db w') (\<lambda>db1.
             bind_result (save_transaction (F Settle_tx_save) db1
                 ((savedTx ctx)\<lparr>tx_status := COMPLETED,
                    tx_description := ''Withdrawal completed''\<rparr>)) (\<lambda>db2.
             bind_result (save_withdrawal (F Settle_withdrawal_save) db2
                 ((savedWd ctx)\<lparr>wd_status := ''completed'',
                    external_reference :=
                      (if truthy_str (transfer_code data) then transfer_code data
                       else td_reference data)\<rparr>)) (\<lambda>db3.
             bind_result (insert_transaction (F Settle_feeTx_save) db3
                 (new_transaction w' userId (ctx_fee ctx) WITHDRAWAL_FEE COMPLETED
                    ''Withdrawal fee'')) (\<lambda>(db4, savedFeeTx).
             bind_result (insert_ledger (F Settle_ledSettle_save) db4
                 (new_ledger w' userId debit (ctx_net ctx) None (tx_id (savedTx ctx))
                    ''withdrawal_settle'')) (\<lambda>db5.
             bind_result (insert_ledger (F Settle_ledFee_save) db5
                 (new_ledger w' userId debit (ctx_fee ctx) None (tx_id savedFeeTx)
                    ''withdrawal_fee'')) (\<lambda>db6.
             commitTransaction (F Settle_commit) db6)))))))"

text \<open>Lines 365-467: what the handler does with the gateway's answer.\<close>

definition withdrawals_after_gateway ::
  "faults \<Rightarrow> database \<Rightarrow> uuid \<Rightarrow> wd_ctx \<Rightarrow> transfer_result \<Rightarrow> response \<times> database" where
  "withdrawals_after_gateway F db userId ctx transfer =
     (case (if t_success transfer then t_data transfer else None) of
        None \<Rightarrow>
          (case stage2A_refund F db userId ctx transfer of
             Inl e \<Rightarrow> (Failure 500 ''Internal server error'', db)
           | Inr db' \<Rightarrow>
               (Failure 400 (or_default (t_message transfer)
                               ''Failed to initiate bank transfer''), db'))
      | Some data \<Rightarrow>
          (case stage2B_settle F db userId ctx data of
             Inl e \<Rightarrow> (Failure 500 ''Internal server error'', db)
           | Inr db' \<Rightarrow> (Success 201, db')))"

definition post_withdrawals ::
  "faults \<Rightarrow> (real \<Rightarrow> string \<Rightarrow> string \<Rightarrow> string \<Rightarrow> transfer_result) \<Rightarrow> database \<Rightarrow> uuid
     \<Rightarrow> withdrawal_body \<Rightarrow> response \<times> database" where
  "post_withdrawals F initiateBankTransfer db userId body =
     (case withdrawals_until_gateway F db userId body of
        Inl r \<Rightarrow> r
      | Inr (ctx, db2) \<Rightarrow>
          withdrawals_after_gateway F db2 userId ctx
            (initiateBankTransfer (ctx_net ctx) (ai_name (ctx_account ctx))
               (ai_number (ctx_account ctx)) (ai_bankCode (ctx_account ctx))))"

section \<open>What the withdrawal stages commit\<close>

text \<open>The outcome of each stage of the withdrawal handler, written out: the properties
  below relate the handler to these databases.\<close>

text \<open>The write sites of each stage, and the condition that none of them throws.\<close>

definition stage1_sites :: "write_site list" where
  "stage1_sites = [Hold_wallet_save, Hold_tx_save, Hold_ledger_save, Hold_commit]"

definition refund_sites :: "write_site list" where
  "refund_sites = [Refund_wallet_save, Refund_withdrawal_save, Refund_tx_save,
                   Refund_ledger_save, Refund_commit]"

definition settle_sites :: "write_site list" where
  "settle_sites = [Settle_wallet_save, Settle_tx_save, Settle_withdrawal_save,
                   Settle_feeTx_save, Settle_ledSettle_save, Settle_ledFee_save, Settle_commit]"

definition writes_succeed :: "faults \<Rightarrow> write_site list \<Rightarrow> bool" where
  "writes_succeed F sites = list_all (\<lambda>s. \<not> F s) sites"

text \<open>The database stage 1 commits: the wallet row overwritten, the hold transaction and
  the hold ledger entry appended.\<close>

definition held :: "database \<Rightarrow> uuid \<Rightarrow> Wallet \<Rightarrow> real \<Rightarrow> database" where
  "held db u w a =
     db\<lparr>wallets := map (\<lambda>r. if w_id r = w_id w then hold_wallet w a else r) (wallets db),
        transactions := transactions db @
          [(new_transaction (hold_wallet w a) u a WITHDRAWAL PENDING ''Withdrawal hold placed'')
             \<lparr>tx_id := length (transactions db)\<rparr>],
        wallet_ledger := wallet_ledger db @
          [new_ledger (hold_wallet w a) u debit a None (length (transactions db)) ''withdrawal_hold'']\<rparr>"

text \<open>The rows stage 2A and stage 2B write, and the databases they commit.\<close>

definition failed_withdrawal :: "wd_ctx \<Rightarrow> transfer_result \<Rightarrow> Withdrawal" where
  "failed_withdrawal ctx transfer =
     (savedWd ctx)\<lparr>wd_status := ''failed'',
        admin_notes := Some (or_default (t_message transfer) ''Transfer initiation failed'')\<rparr>"

definition failed_transaction :: "wd_ctx \<Rightarrow> Transaction" where
  "failed_transaction ctx =
     (savedTx ctx)\<lparr>tx_status := FAILED, tx_description := ''Withdrawal failed (refunded)''\<rparr>"

definition refunded :: "database \<Rightarrow> uuid \<Rightarrow> wd_ctx \<Rightarrow> transfer_result \<Rightarrow> Wallet \<Rightarrow> database" where
  "refunded db u ctx transfer w =
     db\<lparr>wallets := map (\<lambda>r. if w_id r = w_id w then refund_wallet w (ctx_amount ctx) else r)
                     (wallets db),
        withdrawals := map (\<lambda>r. if wd_id r = wd_id (savedWd ctx)
                                  then failed_withdrawal ctx transfer else r) (withdrawals db),
        transactions := map (\<lambda>r. if tx_id r = tx_id (savedTx ctx)
                                   then failed_transaction ctx else r) (transactions db),
        wallet_ledger := wallet_ledger db @
          [new_ledger (refund_wallet w (ctx_amount ctx)) u credit (ctx_amount ctx) None
             (tx_id (savedTx ctx)) ''withdrawal_refund'']\<rparr>"

definition completed_withdrawal :: "wd_ctx \<Rightarrow> transfer_data \<Rightarrow> Withdrawal" where
  "completed_withdrawal ctx data =
     (savedWd ctx)\<lparr>wd_status := ''completed'',
        external_reference :=
          (if truthy_str (transfer_code data) then transfer_code data else td_reference data)\<rparr>"

definition completed_transaction :: "wd_ctx \<Rightarrow> Transaction" where
  "completed_transaction ctx =
     (savedTx ctx)\<lparr>tx_status := COMPLETED, tx_description := ''Withdrawal completed''\<rparr>"

definition settled :: "database \<Rightarrow> uuid \<Rightarrow> wd_ctx \<Rightarrow> transfer_data \<Rightarrow> Wallet \<Rightarrow> database" where
  "settled db u ctx data w =
     db\<lparr>wallets := map (\<lambda>r. if w_id r = w_id w then settle_wallet w (ctx_amount ctx) else r)
                     (wallets db),
        transactions :=
          map (\<lambda>r. if tx_id r = tx_id (savedTx ctx) then completed_transaction ctx else r)
            (transactions db) @
          [(new_transaction (settle_wallet w (ctx_amount ctx)) u (ctx_fee ctx) WITHDRAWAL_FEE
              COMPLETED ''Withdrawal fee'')\<lparr>tx_id := length (transactions db)\<rparr>],
        withdrawals := map (\<lambda>r. if wd_id r = wd_id (savedWd ctx)
                                  then completed_withdrawal ctx data else r) (withdrawals db),
        wallet_ledger := wallet_ledger db @
          [new_ledger (settle_wallet w (ctx_amount ctx)) u debit (ctx_net ctx) None
             (tx_id (savedTx ctx)) ''withdrawal_settle'',
           new_ledger (settle_wallet w (ctx_amount ctx)) u debit (ctx_fee ctx) None
             (length (transactions db)) ''withdrawal_fee'']\<rparr>"

text \<open>What the handler holds when it calls the gateway, for a wallet row \<open>w\<close> that is
  already on record.\<close>

definition gateway_ctx :: "database \<Rightarrow> uuid \<Rightarrow> Wallet \<Rightarrow> real \<Rightarrow> accountInfo \<Rightarrow> wd_ctx" where
  "gateway_ctx db u w a info =
     (let stx = (new_transaction (hold_wallet w a) u a WITHDRAWAL PENDING
                   ''Withdrawal hold placed'')\<lparr>tx_id := length (transactions db)\<rparr>
      in \<lparr>ctx_wallet = w, ctx_amount = a, ctx_fee = fee a, ctx_net = net a,
           ctx_account = info, savedTx = stx,
           savedWd = (new_withdrawal u info a stx)\<lparr>wd_id := length (withdrawals db)\<rparr>\<rparr>)"

definition gateway_db :: "database \<Rightarrow> uuid \<Rightarrow> Wallet \<Rightarrow> real \<Rightarrow> accountInfo \<Rightarrow> database" where
  "gateway_db db u w a info =
     (held db u w a)\<lparr>withdrawals := withdrawals db @ [savedWd (gateway_ctx db u w a info)]\<rparr>"

section \<open>A retried refund\<close>




section \<open>Sequences of operations\<close>

text \<open>A request to one of the wallet routes or a call of one of the service methods, with
  everything it depends on besides the database: which writes throw and what the gateway
  answers. Under a fault the database an operation leaves behind is the one committed
  before the failing write, so running sequences under all faults visits every committed
  step.\<close>

datatype request =
    DepositsVerify faults "string \<Rightarrow> verify_result" uuid verify_body
  | Withdrawals faults "real \<Rightarrow> string \<Rightarrow> string \<Rightarrow> string \<Rightarrow> transfer_result" uuid withdrawal_body
  | AddFunds faults uuid real string
  | WithdrawFunds faults uuid real string string
  | TransferFunds faults uuid uuid real "string option"

fun handle :: "database \<Rightarrow> request \<Rightarrow> database" where
  "handle db (DepositsVerify F verifyPayment userId body) =
     snd (post_deposits_verify F verifyPayment db userId body)"
| "handle db (Withdrawals F initiateBankTransfer userId body) =
     snd (post_withdrawals F initiateBankTransfer db userId body)"
| "handle db (AddFunds F userId amount paymentMethod) =
     fst (addFunds F db userId amount paymentMethod)"
| "handle db (WithdrawFunds F userId amount bankName accountNumber) =
     fst (withdrawFunds F db userId amount bankName accountNumber)"
| "handle db (TransferFunds F fromUserId toUserId amount description) =
     fst (transferFunds F db fromUserId toUserId amount description)"

definition run :: "database \<Rightarrow> request list \<Rightarrow> database" where
  "run db rs = foldl handle db rs"

text \<open>The amounts no check of the code constrains: what the gateway reports for a deposit,
  and the amounts passed to \<^verbatim>\<open>addFunds\<close> and \<^verbatim>\<open>transferFunds\<close>. (The withdrawal route validates its
  amount itself.)\<close>

fun amount_nonneg :: "request \<Rightarrow> bool" where
  "amount_nonneg (DepositsVerify F verifyPayment userId body) =
     (case v_data (verifyPayment (reference body)) of
        None \<Rightarrow> True
      | Some data \<Rightarrow> 0 \<le> or_zero (vd_amount data))"
| "amount_nonneg (Withdrawals F initiateBankTransfer userId body) = True"
| "amount_nonneg (AddFunds F userId amount paymentMethod) = (0 \<le> amount)"
| "amount_nonneg (WithdrawFunds F userId amount bankName accountNumber) = True"
| "amount_nonneg (TransferFunds F fromUserId toUserId amount description) = (0 \<le> amount)"

definition wallet_nonneg :: "Wallet \<Rightarrow> bool" where
  "wallet_nonneg w = (0 \<le> balance w \<and> 0 \<le> pending_balance w)"

definition wallets_nonneg :: "database \<Rightarrow> bool" where
  "wallets_nonneg db = list_all wallet_nonneg (wallets db)"

section \<open>Replaying the ledger\<close>

text \<open>Folding the ledger entries of a wallet in creation order from 0, the balance of a
  new wallet: a credit adds its amount, a debit subtracts it.\<close>

definition signed_amount :: "WalletLedger \<Rightarrow> real" where
  "signed_amount l = (case entry_type l of credit \<Rightarrow> led_amount l | debit \<Rightarrow> - led_amount l)"

definition ledger_replay :: "uuid \<Rightarrow> WalletLedger list \<Rightarrow> real" where
  "ledger_replay i ledger =
     foldl (\<lambda>acc l. acc + signed_amount l) 0 (filter (\<lambda>l. led_wallet_id l = i) ledger)"

text \<open>The two entries stage 2B appends record no change of the balance. The replay that
  leaves them out:\<close>

definition settle_entry :: "WalletLedger \<Rightarrow> bool" where
  "settle_entry l = (led_context l = ''withdrawal_settle'' \<or> led_context l = ''withdrawal_fee'')"

definition balance_replay :: "uuid \<Rightarrow> WalletLedger list \<Rightarrow> real" where
  "balance_replay i ledger = ledger_replay i (filter (\<lambda>l. \<not> settle_entry l) ledger)"



section \<open>Example inputs\<close>

definition db_one_wallet :: "real \<Rightarrow> database" where
  "db_one_wallet b =
     \<lparr>users = [1],
      wallets = [\<lparr>w_id = 0, w_user_id = 1, balance = b, pending_balance = 0,
                  total_deposited = b\<rparr>],
      transactions = [], wallet_ledger = [], withdrawals = [], bank_accounts = []\<rparr>"

definition verify_ok :: "real \<Rightarrow> string \<Rightarrow> verify_result" where
  "verify_ok kobo ref =
     \<lparr>v_success = True, verified = True, v_data = Some \<lparr>vd_amount = Some kobo\<rparr>,
      v_message = None\<rparr>"

definition db_saved_account :: database where
  "db_saved_account =
     (db_one_wallet 1000)\<lparr>bank_accounts :=
        [\<lparr>ba_id = 7, ba_user_id = 1, account_name = ''Saved Name'',
          account_number = ''0123456789'', bank_name = ''Saved Bank'', bank_code = ''058''\<rparr>]\<rparr>"

definition body_inline :: "real \<Rightarrow> withdrawal_body" where
  "body_inline a =
     \<lparr>req_amount = a, req_bank_account_id = None, req_bank_name = Some ''Inline Bank'',
      req_bank_code = Some ''011'', req_account_number = Some ''9876543210'',
      req_account_name = Some ''Inline Name''\<rparr>"

definition body_both :: "real \<Rightarrow> withdrawal_body" where
  "body_both a = (body_inline a)\<lparr>req_bank_account_id := Some 7\<rparr>"

definition body_no_details :: "real \<Rightarrow> withdrawal_body" where
  "body_no_details a = (body_inline a)\<lparr>req_account_name := None\<rparr>"

definition gateway_ok :: "real \<Rightarrow> string \<Rightarrow> string \<Rightarrow> string \<Rightarrow> transfer_result" where
  "gateway_ok amount name number code =
     \<lparr>t_success = True,
      t_data = Some \<lparr>transfer_code = Some ''TRF_1'', td_reference = Some ''ref_1''\<rparr>,
      t_message = None\<rparr>"

definition transfer_failed :: transfer_result where
  "transfer_failed =
     \<lparr>t_success = False, t_data = None, t_message = Some ''Transfer declined''\<rparr>"

definition gateway_fail :: "real \<Rightarrow> string \<Rightarrow> string \<Rightarrow> string \<Rightarrow> transfer_result" where
  "gateway_fail amount name number code = transfer_failed"

definition faults_withdrawal_save :: faults where
  "faults_withdrawal_save = no_faults(Withdrawal_save := True)"

definition faults_hold_ledger_save :: faults where
  "faults_hold_ledger_save = no_faults(Hold_ledger_save := True)"

definition faults_verify_tx_save :: faults where
  "faults_verify_tx_save = no_faults(Verify_tx_save := True)"

definition faults_fallback_ledger_save :: faults where
  "faults_fallback_ledger_save = no_faults(Fallback_ledger_save := True)"

definition db_pending_deposit :: database where
  "db_pending_deposit =
     (db_one_wallet 0)\<lparr>transactions :=
        [\<lparr>tx_id = 0, tx_wallet_id = 0, tx_user_id = 1, tx_amount = 500,
          transaction_type = DEPOSIT, tx_status = PENDING,
          tx_description = ''Wallet deposit initiated'', tx_reference = Some ''ref''\<rparr>]\<rparr>"

text \<open>Projections used to state results on concrete inputs.\<close>

definition balances :: "database \<Rightarrow> (real \<times> real) list" where
  "balances db = map (\<lambda>w. (balance w, pending_balance w)) (wallets db)"


definition wallet_1000 :: Wallet where
  "wallet_1000 =
     \<lparr>w_id = 0, w_user_id = 1, balance = 1000, pending_balance = 0, total_deposited = 1000\<rparr>"



definition db_two_users :: "real \<Rightarrow> database" where
  "db_two_users b = (db_one_wallet b)\<lparr>users := [1, 2]\<rparr>"

definition requests_example :: "request list" where
  "requests_example =
     [DepositsVerify no_faults (verify_ok 50000) 1 \<lparr>reference = ''ref'', expectedAmount = None\<rparr>,
      Withdrawals no_faults gateway_ok 1 (body_inline 400),
      TransferFunds no_faults 1 2 50 None]"

definition negative_transfer :: "request list" where
  "negative_transfer = [TransferFunds no_faults 1 2 (- 5) None]"




section \<open>Properties\<close>

subsection \<open>Evaluation on concrete inputs\<close>

lemmas handler_defs = post_withdrawals_def withdrawals_until_gateway_def
  withdrawals_after_gateway_def post_deposits_verify_def verify_credit_pending_def
  verify_credit_fallback_def amount_mismatch_def truthy_num_def or_zero_def credit_wallet_def
  findPendingTx_def
  getWalletByUserId_def createWallet_def findWalletByUserId_def findWalletById_def
  findBankAccount_def resolve_account_def inline_details_present_def saved_account_info_def
  inline_account_info_def truthy_str_def stage1_hold_def stage2A_refund_def stage2B_settle_def
  hold_wallet_def refund_wallet_def settle_wallet_def new_transaction_def new_ledger_def
  new_withdrawal_def bind_result_def save_wallet_def insert_wallet_def save_transaction_def
  insert_transaction_def insert_ledger_def save_withdrawal_def insert_withdrawal_def
  commitTransaction_def or_default_def round_cents_def Math_round_def Number_EPSILON_def
  fee_def net_def percentFee_def fixedFee_def no_faults_def Let_def

lemmas example_defs = db_one_wallet_def db_saved_account_def body_inline_def body_both_def
  body_no_details_def gateway_ok_def gateway_fail_def transfer_failed_def verify_ok_def
  db_pending_deposit_def

lemmas fault_defs = faults_withdrawal_save_def faults_hold_ledger_save_def faults_verify_tx_save_def
  faults_fallback_ledger_save_def

subsection \<open>Tables and thrown errors\<close>


lemma bind_result_simps [simp]:
  "bind_result (Inl e) f = Inl e" "bind_result (Inr x) f = f x"
  by (simp_all add: bind_result_def)

lemma bind_result_eq_Inr:
  "bind_result m f = Inr y \<longleftrightarrow> (\<exists>x. m = Inr x \<and> f x = Inr y)"
  by (cases m) simp_all

lemma save_wallet_eq_Inr:
  "save_wallet t db w = Inr db' \<longleftrightarrow>
     \<not> t \<and> db' = db\<lparr>wallets := map (\<lambda>r. if w_id r = w_id w then w else r) (wallets db)\<rparr>"
  by (auto simp: save_wallet_def)

lemma save_transaction_eq_Inr:
  "save_transaction t db x = Inr db' \<longleftrightarrow>
     \<not> t \<and> db' = db\<lparr>transactions := map (\<lambda>r. if tx_id r = tx_id x then x else r) (transactions db)\<rparr>"
  by (auto simp: save_transaction_def)

lemma save_withdrawal_eq_Inr:
  "save_withdrawal t db x = Inr db' \<longleftrightarrow>
     \<not> t \<and> db' = db\<lparr>withdrawals := map (\<lambda>r. if wd_id r = wd_id x then x else r) (withdrawals db)\<rparr>"
  by (auto simp: save_withdrawal_def)

lemma insert_transaction_eq_Inr:
  "insert_transaction t db x = Inr (db', s) \<longleftrightarrow>
     \<not> t \<and> s = x\<lparr>tx_id := length (transactions db)\<rparr>
     \<and> db' = db\<lparr>transactions := transactions db @ [x\<lparr>tx_id := length (transactions db)\<rparr>]\<rparr>"
  by (auto simp: insert_transaction_def Let_def)

lemma insert_withdrawal_eq_Inr:
  "insert_withdrawal t db x = Inr (db', s) \<longleftrightarrow>
     \<not> t \<and> s = x\<lparr>wd_id := length (withdrawals db)\<rparr>
     \<and> db' = db\<lparr>withdrawals := withdrawals db @ [x\<lparr>wd_id := length (withdrawals db)\<rparr>]\<rparr>"
  by (auto simp: insert_withdrawal_def Let_def)

lemma insert_wallet_eq_Inr:
  "insert_wallet t db x = Inr (db', s) \<longleftrightarrow>
     \<not> t \<and> s = x\<lparr>w_id := length (wallets db)\<rparr>
     \<and> db' = db\<lparr>wallets := wallets db @ [x\<lparr>w_id := length (wallets db)\<rparr>]\<rparr>"
  by (auto simp: insert_wallet_def Let_def)

lemma insert_ledger_eq_Inr:
  "insert_ledger t db l = Inr db' \<longleftrightarrow> \<not> t \<and> db' = db\<lparr>wallet_ledger := wallet_ledger db @ [l]\<rparr>"
  by (auto simp: insert_ledger_def)

lemma commitTransaction_eq_Inr:
  "commitTransaction t db = Inr db' \<longleftrightarrow> \<not> t \<and> db' = db"
  by (auto simp: commitTransaction_def)

lemmas write_eq_Inr = bind_result_eq_Inr save_wallet_eq_Inr save_transaction_eq_Inr
  save_withdrawal_eq_Inr insert_transaction_eq_Inr insert_withdrawal_eq_Inr insert_ledger_eq_Inr
  commitTransaction_eq_Inr

lemma findWalletById_SomeD: "findWalletById db i = Some w \<Longrightarrow> w_id w = i \<and> w \<in> set (wallets db)"
  by (auto simp: findWalletById_def find_Some_iff in_set_conv_nth)

lemma findWalletByUserId_SomeD:
  "findWalletByUserId db u = Some w \<Longrightarrow> w_user_id w = u \<and> w \<in> set (wallets db)"
  by (auto simp: findWalletByUserId_def find_Some_iff in_set_conv_nth)


lemma getWalletByUserId_existing:
  "u \<in> set (users db) \<Longrightarrow> findWalletByUserId db u = Some w \<Longrightarrow> getWalletByUserId F db u = (db, Inr w)"
  by (simp add: getWalletByUserId_def)

lemma stage1_hold_eq_Inr:
  "stage1_hold F db u wallet a = Inr (db1, stx) \<longleftrightarrow>
     (\<exists>w. findWalletById db (w_id wallet) = Some w \<and> \<not> balance w < a
        \<and> \<not> F Hold_wallet_save \<and> \<not> F Hold_tx_save \<and> \<not> F Hold_ledger_save \<and> \<not> F Hold_commit
        \<and> db1 = held db u w a
        \<and> stx = (new_transaction (hold_wallet w a) u a WITHDRAWAL PENDING ''Withdrawal hold placed'')
                   \<lparr>tx_id := length (transactions db)\<rparr>)"
  by (auto simp: stage1_hold_def Let_def write_eq_Inr held_def hold_wallet_def split: option.splits)






subsection \<open>Rounding\<close>




subsection \<open>Fee arithmetic\<close>






subsection \<open>Deposit verification: the expected amount\<close>






subsection \<open>Withdrawal, stage 1\<close>





subsection \<open>Deposit verification: the three writes\<close>

text \<open>
  C7. The three writes of a deposit credit (wallet, transaction, ledger) run outside
  any database transaction. With a pending transaction on record and the transaction
  write throwing, the wallet is credited while the transaction stays pending and no
  ledger entry exists; on the fallback path with the ledger write throwing, the wallet
  is credited and the completed transaction exists, without a ledger entry.
\<close>

theorem deposit_credit_not_atomic:
  "post_deposits_verify faults_verify_tx_save (verify_ok 50000) db_pending_deposit 1
     \<lparr>reference = ''ref'', expectedAmount = None\<rparr>
   = (Failure 500 ''Internal server error'',
      \<lparr>users = [1],
       wallets = [\<lparr>w_id = 0, w_user_id = 1, balance = 500, pending_balance = 0,
                   total_deposited = 500\<rparr>],
       transactions = [\<lparr>tx_id = 0, tx_wallet_id = 0, tx_user_id = 1, tx_amount = 500,
                        transaction_type = DEPOSIT, tx_status = PENDING,
                        tx_description = ''Wallet deposit initiated'',
                        tx_reference = Some ''ref''\<rparr>],
       wallet_ledger = [], withdrawals = [], bank_accounts = []\<rparr>)
   \<and> post_deposits_verify faults_fallback_ledger_save (verify_ok 50000) (db_one_wallet 0) 1
     \<lparr>reference = ''ref'', expectedAmount = None\<rparr>
   = (Failure 500 ''Internal server error'',
      \<lparr>users = [1],
       wallets = [\<lparr>w_id = 0, w_user_id = 1, balance = 500, pending_balance = 0,
                   total_deposited = 500\<rparr>],
       transactions = [\<lparr>tx_id = 0, tx_wallet_id = 0, tx_user_id = 1, tx_amount = 500,
                        transaction_type = DEPOSIT, tx_status = COMPLETED,
                        tx_description = ''Wallet deposit (no pending record)'',
                        tx_reference = Some ''ref''\<rparr>],
       wallet_ledger = [], withdrawals = [], bank_accounts = []\<rparr>)"
  by (simp add: handler_defs example_defs fault_defs db_pending_deposit_def)

theorem deposit_credit_not_atomic_witness:
  "fst (post_deposits_verify faults_verify_tx_save (verify_ok 50000) db_pending_deposit 1
          \<lparr>reference = ''ref'', expectedAmount = None\<rparr>) = Failure 500 ''Internal server error''
   \<and> balances (db_pending_deposit) = [(0, 0)]
   \<and> balances (snd (post_deposits_verify faults_verify_tx_save (verify_ok 50000)
                       db_pending_deposit 1 \<lparr>reference = ''ref'', expectedAmount = None\<rparr>))
       = [(500, 0)]
   \<and> map tx_status (transactions (snd (post_deposits_verify faults_verify_tx_save
         (verify_ok 50000) db_pending_deposit 1 \<lparr>reference = ''ref'', expectedAmount = None\<rparr>)))
       = [PENDING]
   \<and> wallet_ledger (snd (post_deposits_verify faults_verify_tx_save (verify_ok 50000)
                       db_pending_deposit 1 \<lparr>reference = ''ref'', expectedAmount = None\<rparr>)) = []"
  using deposit_credit_not_atomic
  by (simp add: balances_def db_pending_deposit_def db_one_wallet_def)

subsection \<open>Whole cents\<close>




lemma whole_cents_0 [simp]: "whole_cents 0"
  by (simp add: whole_cents_def)


lemma round_cents_nonneg: "0 \<le> x \<Longrightarrow> 0 \<le> round_cents x"
proof -
  assume "0 \<le> x"
  then have "0 \<le> (x + Number_EPSILON) * 100 + 1 / 2" by (simp add: Number_EPSILON_def)
  then have "0 \<le> \<lfloor>(x + Number_EPSILON) * 100 + 1 / 2\<rfloor>" by (simp only: zero_le_floor)
  then show ?thesis by (simp add: round_cents_def Math_round_def)
qed


subsection \<open>The withdrawal stages\<close>

lemma stage2A_refund_eq_Inr:
  "stage2A_refund F db u ctx tr = Inr db' \<longleftrightarrow>
     (\<exists>w. findWalletById db (w_id (ctx_wallet ctx)) = Some w
        \<and> writes_succeed F refund_sites \<and> db' = refunded db u ctx tr w)"
  by (auto simp: stage2A_refund_def Let_def write_eq_Inr refunded_def refund_wallet_def
      failed_withdrawal_def failed_transaction_def writes_succeed_def refund_sites_def
      split: option.splits)

lemma stage2B_settle_eq_Inr:
  "stage2B_settle F db u ctx data = Inr db' \<longleftrightarrow>
     (\<exists>w. findWalletById db (w_id (ctx_wallet ctx)) = Some w
        \<and> writes_succeed F settle_sites \<and> db' = settled db u ctx data w)"
  by (auto simp: stage2B_settle_def Let_def write_eq_Inr settled_def settle_wallet_def
      completed_withdrawal_def completed_transaction_def writes_succeed_def settle_sites_def
      split: option.splits)

lemma stage1_hold_eq_Inr':
  "stage1_hold F db u wallet a = Inr (db1, stx) \<longleftrightarrow>
     (\<exists>w. findWalletById db (w_id wallet) = Some w \<and> \<not> balance w < a
        \<and> writes_succeed F stage1_sites
        \<and> db1 = held db u w a
        \<and> stx = (new_transaction (hold_wallet w a) u a WITHDRAWAL PENDING ''Withdrawal hold placed'')
                   \<lparr>tx_id := length (transactions db)\<rparr>)"
  by (auto simp: stage1_hold_eq_Inr writes_succeed_def stage1_sites_def)


lemma until_gateway_reached:
  assumes "u \<in> set (users db)" "findWalletByUserId db u = Some w"
    "findWalletById db (w_id w) = Some w"
    "0 < req_amount body" "req_amount body \<le> balance w"
    "resolve_account db u body = Inr info"
    "writes_succeed F stage1_sites" "\<not> F Withdrawal_save"
  shows "withdrawals_until_gateway F db u body
           = Inr (gateway_ctx db u w (req_amount body) info, gateway_db db u w (req_amount body) info)"
proof -
  have g: "getWalletByUserId F db u = (db, Inr w)"
    using assms(1,2) by (rule getWalletByUserId_existing)
  have h: "stage1_hold F db u w (req_amount body)
             = Inr (held db u w (req_amount body), savedTx (gateway_ctx db u w (req_amount body) info))"
    using assms(3,5,7) by (simp add: stage1_hold_eq_Inr' gateway_ctx_def Let_def)
  show ?thesis
    using assms(4,5,6,8) g h
    by (simp add: withdrawals_until_gateway_def Let_def insert_withdrawal_def gateway_ctx_def
        gateway_db_def held_def)
qed


lemma gateway_ctx_simps [simp]:
  "ctx_wallet (gateway_ctx db u w a info) = w"
  "ctx_amount (gateway_ctx db u w a info) = a"
  "ctx_fee (gateway_ctx db u w a info) = fee a"
  "ctx_net (gateway_ctx db u w a info) = net a"
  "ctx_account (gateway_ctx db u w a info) = info"
  "tx_id (savedTx (gateway_ctx db u w a info)) = length (transactions db)"
  "wd_id (savedWd (gateway_ctx db u w a info)) = length (withdrawals db)"
  "wd_status (savedWd (gateway_ctx db u w a info)) = ''processing''"
  "tx_status (savedTx (gateway_ctx db u w a info)) = PENDING"
  by (simp_all add: gateway_ctx_def Let_def new_withdrawal_def new_transaction_def)

lemma hold_wallet_simps [simp]:
  "w_id (hold_wallet w a) = w_id w" "w_user_id (hold_wallet w a) = w_user_id w"
  "w_id (refund_wallet w a) = w_id w" "w_user_id (refund_wallet w a) = w_user_id w"
  "w_id (settle_wallet w a) = w_id w" "w_user_id (settle_wallet w a) = w_user_id w"
  "balance (settle_wallet w a) = balance w"
  by (simp_all add: hold_wallet_def refund_wallet_def settle_wallet_def)













subsection \<open>Withdrawal, stage 2A: refund\<close>







subsection \<open>Withdrawal, stage 2B: settle\<close>






subsection \<open>One request, one refund\<close>



lemma after_gateway_cases:
  "snd (withdrawals_after_gateway F db2 u ctx tr) = db2
   \<or> (\<exists>w2. findWalletById db2 (w_id (ctx_wallet ctx)) = Some w2
          \<and> snd (withdrawals_after_gateway F db2 u ctx tr) = refunded db2 u ctx tr w2)
   \<or> (\<exists>w2 data. findWalletById db2 (w_id (ctx_wallet ctx)) = Some w2
          \<and> snd (withdrawals_after_gateway F db2 u ctx tr) = settled db2 u ctx data w2)"
proof (cases "if t_success tr then t_data tr else None")
  case None
  show ?thesis
  proof (cases "stage2A_refund F db2 u ctx tr")
    case (Inl e)
    then show ?thesis using None by (simp add: withdrawals_after_gateway_def)
  next
    case (Inr db3)
    then obtain w2 where "findWalletById db2 (w_id (ctx_wallet ctx)) = Some w2"
      "db3 = refunded db2 u ctx tr w2"
      unfolding stage2A_refund_eq_Inr by blast
    then show ?thesis using None Inr
      by (simp add: withdrawals_after_gateway_def)
  qed
next
  case (Some data)
  show ?thesis
  proof (cases "stage2B_settle F db2 u ctx data")
    case (Inl e)
    then show ?thesis using Some by (simp add: withdrawals_after_gateway_def)
  next
    case (Inr db3)
    then obtain w2 where "findWalletById db2 (w_id (ctx_wallet ctx)) = Some w2"
      "db3 = settled db2 u ctx data w2"
      unfolding stage2B_settle_eq_Inr by blast
    then show ?thesis using Some Inr
      by (auto simp add: withdrawals_after_gateway_def)
  qed
qed






subsection \<open>Bank account resolution\<close>

lemma findBankAccount_None_iff:
  "findBankAccount db i u = None \<longleftrightarrow> (\<forall>a \<in> set (bank_accounts db). ba_id a = i \<longrightarrow> ba_user_id a \<noteq> u)"
  by (auto simp: findBankAccount_def find_None_iff)

lemma findBankAccount_SomeD:
  "findBankAccount db i u = Some acc \<Longrightarrow> acc \<in> set (bank_accounts db) \<and> ba_id acc = i \<and> ba_user_id acc = u"
  by (auto simp: findBankAccount_def find_Some_iff in_set_conv_nth)

lemma post_withdrawals_unresolved:
  assumes "0 < req_amount body" "getWalletByUserId F db u = (db0, Inr wallet)"
    "\<not> balance wallet < req_amount body" "resolve_account db0 u body = Inl r"
  shows "post_withdrawals F gw db u body = (r, db0)"
  using assms by (simp add: post_withdrawals_def withdrawals_until_gateway_def Let_def)

text \<open>
  C9, as the code has it. For a withdrawal request that has passed validation and the
  balance check: with no \<open>bank_account_id\<close>, the four inline fields must all be present
  and non-empty, otherwise the request fails with 400 \<open>Bank account details required\<close>
  and nothing is written; with a \<open>bank_account_id\<close> that no account of the requesting
  user carries, the request fails with 404 \<open>Bank account not found\<close> and nothing is
  written; with a \<open>bank_account_id\<close> of an account of the requesting user, that account
  is used, whether or not inline details are supplied as well.
\<close>

theorem bank_account_resolution:
  assumes "0 < req_amount body"
    and "getWalletByUserId F db userId = (db0, Inr wallet)"
    and "\<not> balance wallet < req_amount body"
  shows "(req_bank_account_id body = None \<and> \<not> inline_details_present body \<longrightarrow>
            post_withdrawals F gw db userId body
              = (Failure 400 ''Bank account details required'', db0))
       \<and> (req_bank_account_id body = None \<and> inline_details_present body \<longrightarrow>
            resolve_account db0 userId body = Inr (inline_account_info body))
       \<and> (\<forall>i. req_bank_account_id body = Some i
               \<and> (\<forall>a \<in> set (bank_accounts db0). ba_id a = i \<longrightarrow> ba_user_id a \<noteq> userId) \<longrightarrow>
            post_withdrawals F gw db userId body = (Failure 404 ''Bank account not found'', db0))
       \<and> (\<forall>i. req_bank_account_id body = Some i
               \<and> (\<exists>a \<in> set (bank_accounts db0). ba_id a = i \<and> ba_user_id a = userId) \<longrightarrow>
            (\<exists>acc \<in> set (bank_accounts db0). ba_id acc = i \<and> ba_user_id acc = userId
                \<and> resolve_account db0 userId body = Inr (saved_account_info acc)))"
proof (intro conjI allI impI)
  assume "req_bank_account_id body = None \<and> \<not> inline_details_present body"
  then have "resolve_account db0 userId body = Inl (Failure 400 ''Bank account details required'')"
    by (simp add: resolve_account_def)
  then show "post_withdrawals F gw db userId body
              = (Failure 400 ''Bank account details required'', db0)"
    by (rule post_withdrawals_unresolved [OF assms])
next
  assume "req_bank_account_id body = None \<and> inline_details_present body"
  then show "resolve_account db0 userId body = Inr (inline_account_info body)"
    by (simp add: resolve_account_def)
next
  fix i
  assume "req_bank_account_id body = Some i
               \<and> (\<forall>a \<in> set (bank_accounts db0). ba_id a = i \<longrightarrow> ba_user_id a \<noteq> userId)"
  then have "resolve_account db0 userId body = Inl (Failure 404 ''Bank account not found'')"
    using findBankAccount_None_iff [of db0 i userId] by (simp add: resolve_account_def)
  then show "post_withdrawals F gw db userId body = (Failure 404 ''Bank account not found'', db0)"
    by (rule post_withdrawals_unresolved [OF assms])
next
  fix i
  assume h: "req_bank_account_id body = Some i
               \<and> (\<exists>a \<in> set (bank_accounts db0). ba_id a = i \<and> ba_user_id a = userId)"
  then have "findBankAccount db0 i userId \<noteq> None"
    using findBankAccount_None_iff [of db0 i userId] by auto
  then obtain acc where acc: "findBankAccount db0 i userId = Some acc" by auto
  then have "resolve_account db0 userId body = Inr (saved_account_info acc)"
    using h by (simp add: resolve_account_def)
  then show "\<exists>acc \<in> set (bank_accounts db0). ba_id acc = i \<and> ba_user_id acc = userId
                \<and> resolve_account db0 userId body = Inr (saved_account_info acc)"
    using findBankAccount_SomeD [OF acc] by blast
qed

theorem bank_account_resolution_witness:
  "0 < req_amount (body_no_details 400)
   \<and> getWalletByUserId no_faults db_saved_account 1 = (db_saved_account, Inr wallet_1000)
   \<and> \<not> balance wallet_1000 < req_amount (body_no_details 400)
   \<and> req_bank_account_id (body_no_details 400) = None
   \<and> \<not> inline_details_present (body_no_details 400)
   \<and> post_withdrawals no_faults gateway_ok db_saved_account 1 (body_no_details 400)
       = (Failure 400 ''Bank account details required'', db_saved_account)"
proof -
  have h: "0 < req_amount (body_no_details 400)"
    "getWalletByUserId no_faults db_saved_account 1 = (db_saved_account, Inr wallet_1000)"
    "\<not> balance wallet_1000 < req_amount (body_no_details 400)"
    by (simp_all add: body_no_details_def body_inline_def getWalletByUserId_def
        findWalletByUserId_def db_saved_account_def db_one_wallet_def wallet_1000_def)
  have n: "req_bank_account_id (body_no_details 400) = None"
    "\<not> inline_details_present (body_no_details 400)"
    by (simp_all add: body_no_details_def body_inline_def inline_details_present_def truthy_str_def)
  from bank_account_resolution [OF h, of gateway_ok] n
  have "post_withdrawals no_faults gateway_ok db_saved_account 1 (body_no_details 400)
       = (Failure 400 ''Bank account details required'', db_saved_account)"
    by blast
  then show ?thesis using h n by simp
qed

text \<open>
  C9 as stated fails: a request that carries both a saved \<open>bank_account_id\<close> and complete
  inline details is not rejected; it goes through with the saved account.
\<close>

theorem both_shapes_counterexample:
  "req_bank_account_id (body_both 400) = Some 7 \<and> inline_details_present (body_both 400)
   \<and> fst (post_withdrawals no_faults gateway_ok db_saved_account 1 (body_both 400)) = Success 201
   \<and> map bank_account_name
        (withdrawals (snd (post_withdrawals no_faults gateway_ok db_saved_account 1 (body_both 400))))
      = [''Saved Name'']"
  by (simp add: handler_defs example_defs)

subsection \<open>No negative balances\<close>

lemma wallets_nonneg_iff: "wallets_nonneg db \<longleftrightarrow> (\<forall>w \<in> set (wallets db). wallet_nonneg w)"
  by (simp add: wallets_nonneg_def list_all_iff)

lemma wallets_nonneg_cong: "wallets db' = wallets db \<Longrightarrow> wallets_nonneg db' = wallets_nonneg db"
  by (simp add: wallets_nonneg_def)

lemma nonneg_replace:
  "wallets_nonneg db \<Longrightarrow> wallet_nonneg w' \<Longrightarrow>
   wallets_nonneg (db\<lparr>wallets := map (\<lambda>r. if w_id r = w_id w' then w' else r) (wallets db)\<rparr>)"
  by (auto simp: wallets_nonneg_iff)

lemma save_wallet_nonneg:
  "wallets_nonneg db \<Longrightarrow> wallet_nonneg w' \<Longrightarrow> save_wallet t db w' = Inr db' \<Longrightarrow> wallets_nonneg db'"
  by (auto simp: save_wallet_eq_Inr nonneg_replace)

lemma insert_transaction_nonneg:
  "insert_transaction t db x = Inr (db', s) \<Longrightarrow> wallets_nonneg db' = wallets_nonneg db"
  by (auto simp: insert_transaction_eq_Inr wallets_nonneg_def)

lemma save_transaction_nonneg:
  "save_transaction t db x = Inr db' \<Longrightarrow> wallets_nonneg db' = wallets_nonneg db"
  by (auto simp: save_transaction_eq_Inr wallets_nonneg_def)

lemma insert_ledger_nonneg:
  "insert_ledger t db x = Inr db' \<Longrightarrow> wallets_nonneg db' = wallets_nonneg db"
  by (auto simp: insert_ledger_eq_Inr wallets_nonneg_def)

lemma getWalletByUserId_nonneg:
  assumes "wallets_nonneg db" "getWalletByUserId F db u = (db0, res)"
  shows "wallets_nonneg db0 \<and> (\<forall>w. res = Inr w \<longrightarrow> wallet_nonneg w)"
proof (cases "u \<in> set (users db)")
  case False
  then show ?thesis using assms by (auto simp: getWalletByUserId_def)
next
  case True
  show ?thesis
  proof (cases "findWalletByUserId db u")
    case (Some w)
    then have "w \<in> set (wallets db)" by (simp add: findWalletByUserId_SomeD)
    then show ?thesis using assms True Some
      by (auto simp: getWalletByUserId_def wallets_nonneg_iff)
  next
    case None
    then show ?thesis using assms True
      by (auto simp: getWalletByUserId_def createWallet_def insert_wallet_def Let_def
          wallets_nonneg_iff wallet_nonneg_def split: if_splits)
  qed
qed

lemma hold_wallet_nonneg:
  "wallet_nonneg w \<Longrightarrow> \<not> balance w < a \<Longrightarrow> 0 \<le> a \<Longrightarrow> wallet_nonneg (hold_wallet w a)"
  by (simp add: wallet_nonneg_def hold_wallet_def round_cents_nonneg)

lemma refund_wallet_nonneg:
  "wallet_nonneg w \<Longrightarrow> 0 \<le> a \<Longrightarrow> wallet_nonneg (refund_wallet w a)"
  by (simp add: wallet_nonneg_def refund_wallet_def round_cents_nonneg)

lemma settle_wallet_nonneg:
  "wallet_nonneg w \<Longrightarrow> wallet_nonneg (settle_wallet w a)"
  by (simp add: wallet_nonneg_def settle_wallet_def)

lemma credit_wallet_nonneg:
  "wallet_nonneg w \<Longrightarrow> 0 \<le> a \<Longrightarrow> wallet_nonneg (credit_wallet w a)"
  by (simp add: wallet_nonneg_def credit_wallet_def)

lemma findWalletById_nonneg:
  "wallets_nonneg db \<Longrightarrow> findWalletById db i = Some w \<Longrightarrow> wallet_nonneg w"
  using findWalletById_SomeD [of db i w] by (auto simp: wallets_nonneg_iff)

lemma findWalletByUserId_nonneg:
  "wallets_nonneg db \<Longrightarrow> findWalletByUserId db u = Some w \<Longrightarrow> wallet_nonneg w"
  using findWalletByUserId_SomeD [of db u w] by (auto simp: wallets_nonneg_iff)

lemma held_nonneg:
  "wallets_nonneg db \<Longrightarrow> wallet_nonneg (hold_wallet w a) \<Longrightarrow> wallets_nonneg (held db u w a)"
  using nonneg_replace [of db "hold_wallet w a"]
  by (simp add: held_def wallets_nonneg_def)

lemma refunded_nonneg:
  "wallets_nonneg db \<Longrightarrow> wallet_nonneg (refund_wallet w (ctx_amount ctx))
     \<Longrightarrow> wallets_nonneg (refunded db u ctx tr w)"
  using nonneg_replace [of db "refund_wallet w (ctx_amount ctx)"]
  by (simp add: refunded_def wallets_nonneg_def)

lemma settled_nonneg:
  "wallets_nonneg db \<Longrightarrow> wallet_nonneg (settle_wallet w (ctx_amount ctx))
     \<Longrightarrow> wallets_nonneg (settled db u ctx data w)"
  using nonneg_replace [of db "settle_wallet w (ctx_amount ctx)"]
  by (simp add: settled_def wallets_nonneg_def)

lemma stage1_hold_nonneg:
  assumes "wallets_nonneg db" "0 \<le> a" "stage1_hold F db u wallet a = Inr (db1, stx)"
  shows "wallets_nonneg db1"
proof -
  from assms(3) obtain w where w: "findWalletById db (w_id wallet) = Some w"
    and b: "\<not> balance w < a" and d: "db1 = held db u w a"
    unfolding stage1_hold_eq_Inr by blast
  have "wallet_nonneg (hold_wallet w a)"
    using findWalletById_nonneg [OF assms(1) w] b assms(2) by (rule hold_wallet_nonneg)
  then show ?thesis unfolding d using assms(1) by (simp add: held_nonneg)
qed

lemma until_gateway_nonneg:
  assumes "wallets_nonneg db"
  shows "case withdrawals_until_gateway F db u body of
           Inl (r, db') \<Rightarrow> wallets_nonneg db'
         | Inr (ctx, db2) \<Rightarrow> wallets_nonneg db2 \<and> 0 \<le> ctx_amount ctx"
proof (cases "0 < req_amount body")
  case False
  then show ?thesis using assms by (simp add: withdrawals_until_gateway_def)
next
  case True
  obtain db0 res where g: "getWalletByUserId F db u = (db0, res)"
    by (cases "getWalletByUserId F db u")
  note n0 = getWalletByUserId_nonneg [OF assms g]
  show ?thesis
  proof (cases res)
    case (Inl e)
    then show ?thesis using True g n0 by (simp add: withdrawals_until_gateway_def)
  next
    case (Inr wallet)
    show ?thesis
    proof (cases "stage1_hold F db0 u wallet (req_amount body)")
      case (Inl e)
      then show ?thesis using True g Inr n0
        by (simp add: withdrawals_until_gateway_def Let_def split: sum.splits)
    next
      case (Inr p)
      obtain db1 stx where p: "p = (db1, stx)" by (cases p)
      have n1: "wallets_nonneg db1"
        using stage1_hold_nonneg [of db0 "req_amount body" F u wallet db1 stx] n0 True Inr p
        by simp
      show ?thesis using True g \<open>res = Inr wallet\<close> Inr p n0 n1
        by (auto simp add: withdrawals_until_gateway_def Let_def insert_withdrawal_def
            wallets_nonneg_def split: sum.splits)
    qed
  qed
qed

lemma after_gateway_nonneg:
  assumes "wallets_nonneg db2" "0 \<le> ctx_amount ctx"
  shows "wallets_nonneg (snd (withdrawals_after_gateway F db2 u ctx tr))"
  using after_gateway_cases [of F db2 u ctx tr]
proof (elim disjE exE conjE)
  assume "snd (withdrawals_after_gateway F db2 u ctx tr) = db2"
  then show ?thesis using assms by simp
next
  fix w2
  assume f: "findWalletById db2 (w_id (ctx_wallet ctx)) = Some w2"
    and e: "snd (withdrawals_after_gateway F db2 u ctx tr) = refunded db2 u ctx tr w2"
  show ?thesis unfolding e
    using assms refund_wallet_nonneg [OF findWalletById_nonneg [OF assms(1) f] assms(2)]
    by (simp add: refunded_nonneg)
next
  fix w2 data
  assume f: "findWalletById db2 (w_id (ctx_wallet ctx)) = Some w2"
    and e: "snd (withdrawals_after_gateway F db2 u ctx tr) = settled db2 u ctx data w2"
  show ?thesis unfolding e
    using assms settle_wallet_nonneg [OF findWalletById_nonneg [OF assms(1) f]]
    by (simp add: settled_nonneg)
qed

lemma post_withdrawals_nonneg:
  assumes "wallets_nonneg db"
  shows "wallets_nonneg (snd (post_withdrawals F gw db u body))"
proof (cases "withdrawals_until_gateway F db u body")
  case (Inl p)
  then show ?thesis using until_gateway_nonneg [OF assms, of F u body]
    by (cases p) (simp add: post_withdrawals_def)
next
  case (Inr p)
  obtain ctx db2 where p: "p = (ctx, db2)" by (cases p)
  have "wallets_nonneg db2 \<and> 0 \<le> ctx_amount ctx"
    using until_gateway_nonneg [OF assms, of F u body] Inr p by simp
  then show ?thesis using Inr p
    by (simp add: post_withdrawals_def after_gateway_nonneg)
qed


lemma verify_credit_pending_nonneg:
  assumes "wallets_nonneg db" "0 \<le> a"
  shows "wallets_nonneg (snd (verify_credit_pending F db u ptx a))"
proof (cases "findWalletByUserId db u")
  case None
  then show ?thesis using assms by (simp add: verify_credit_pending_def)
next
  case (Some w)
  have "wallet_nonneg (credit_wallet w a)"
    using findWalletByUserId_nonneg [OF assms(1) Some] assms(2) by (rule credit_wallet_nonneg)
  then have "wallets_nonneg
     (db\<lparr>wallets := map (\<lambda>r. if w_id r = w_id (credit_wallet w a) then credit_wallet w a else r)
                        (wallets db)\<rparr>)"
    using assms(1) by (simp add: nonneg_replace)
  then show ?thesis using Some assms(1)
    by (simp add: verify_credit_pending_def Let_def save_wallet_def save_transaction_def
        insert_ledger_def wallets_nonneg_def)
qed

lemma verify_credit_fallback_nonneg:
  assumes "wallets_nonneg db" "0 \<le> a"
  shows "wallets_nonneg (snd (verify_credit_fallback F db u ref a))"
proof -
  obtain db0 res where g: "getWalletByUserId F db u = (db0, res)"
    by (cases "getWalletByUserId F db u")
  note n0 = getWalletByUserId_nonneg [OF assms(1) g]
  show ?thesis
  proof (cases res)
    case (Inl e)
    then show ?thesis using g n0 by (simp add: verify_credit_fallback_def)
  next
    case (Inr w)
    have "wallet_nonneg (credit_wallet w a)"
      using n0 Inr assms(2) by (simp add: credit_wallet_nonneg)
    then have "wallets_nonneg
       (db0\<lparr>wallets := map (\<lambda>r. if w_id r = w_id (credit_wallet w a) then credit_wallet w a else r)
                          (wallets db0)\<rparr>)"
      using n0 by (simp add: nonneg_replace)
    then show ?thesis using g Inr n0
      by (simp add: verify_credit_fallback_def Let_def save_wallet_def insert_transaction_def
          insert_ledger_def wallets_nonneg_def)
  qed
qed

lemma post_deposits_verify_nonneg:
  assumes "wallets_nonneg db"
    and "case v_data (vp (reference body)) of None \<Rightarrow> True
         | Some data \<Rightarrow> 0 \<le> or_zero (vd_amount data)"
  shows "wallets_nonneg (snd (post_deposits_verify F vp db u body))"
proof (cases "v_data (vp (reference body))")
  case None
  then show ?thesis using assms(1) by (simp add: post_deposits_verify_def Let_def)
next
  case (Some data)
  then have "0 \<le> or_zero (vd_amount data) / 100" using assms(2) by simp
  then have "\<And>ptx. wallets_nonneg
                 (snd (verify_credit_pending F db u ptx (or_zero (vd_amount data) / 100)))"
    "wallets_nonneg
       (snd (verify_credit_fallback F db u (reference body) (or_zero (vd_amount data) / 100)))"
    using assms(1) by (simp_all add: verify_credit_pending_nonneg verify_credit_fallback_nonneg)
  then show ?thesis using Some assms(1)
    by (simp add: post_deposits_verify_def Let_def split: option.splits)
qed

lemma addFunds_nonneg:
  assumes "wallets_nonneg db" "0 \<le> a"
  shows "wallets_nonneg (fst (addFunds F db u a m))"
proof -
  obtain db0 res where g: "getWalletByUserId F db u = (db0, res)"
    by (cases "getWalletByUserId F db u")
  note n0 = getWalletByUserId_nonneg [OF assms(1) g]
  show ?thesis
  proof (cases res)
    case (Inl e)
    then show ?thesis using g n0 by (simp add: addFunds_def)
  next
    case (Inr w)
    let ?w' = "w\<lparr>balance := balance w + a, total_deposited := total_deposited w + a\<rparr>"
    have "wallet_nonneg ?w'"
      using n0 Inr assms(2) by (simp add: wallet_nonneg_def)
    then have "wallets_nonneg
       (db0\<lparr>wallets := map (\<lambda>r. if w_id r = w_id ?w' then ?w' else r) (wallets db0)\<rparr>)"
      using n0 by (intro nonneg_replace) simp_all
    then show ?thesis using g Inr n0
      by (simp add: addFunds_def Let_def save_wallet_def insert_transaction_def wallets_nonneg_def)
  qed
qed

lemma withdrawFunds_nonneg:
  assumes "wallets_nonneg db"
  shows "wallets_nonneg (fst (withdrawFunds F db u a bn an))"
proof -
  obtain db0 res where g: "getWalletByUserId F db u = (db0, res)"
    by (cases "getWalletByUserId F db u")
  note n0 = getWalletByUserId_nonneg [OF assms(1) g]
  show ?thesis
  proof (cases res)
    case (Inl e)
    then show ?thesis using g n0 by (simp add: withdrawFunds_def)
  next
    case (Inr w)
    show ?thesis
    proof (cases "balance w < a")
      case True
      then show ?thesis using g Inr n0 by (simp add: withdrawFunds_def)
    next
      case False
      let ?w' = "w\<lparr>balance := balance w - a\<rparr>"
      have "wallet_nonneg ?w'"
        using n0 Inr False by (simp add: wallet_nonneg_def)
      then have "wallets_nonneg
         (db0\<lparr>wallets := map (\<lambda>r. if w_id r = w_id ?w' then ?w' else r) (wallets db0)\<rparr>)"
        using n0 by (intro nonneg_replace) simp_all
      then show ?thesis using g Inr n0 False
        by (simp add: withdrawFunds_def Let_def save_wallet_def insert_transaction_def
            wallets_nonneg_def)
    qed
  qed
qed

lemma transferFunds_nonneg:
  assumes "wallets_nonneg db" "0 \<le> a"
  shows "wallets_nonneg (fst (transferFunds F db fu tu a d))"
proof -
  obtain db0 res where g: "getWalletByUserId F db fu = (db0, res)"
    by (cases "getWalletByUserId F db fu")
  note n0 = getWalletByUserId_nonneg [OF assms(1) g]
  show ?thesis
  proof (cases res)
    case (Inl e)
    then show ?thesis using g n0 by (simp add: transferFunds_def)
  next
    case (Inr fw)
    obtain db1 res1 where g1: "getWalletByUserId F db0 tu = (db1, res1)"
      by (cases "getWalletByUserId F db0 tu")
    have n0': "wallets_nonneg db0" using n0 by simp
    note n1 = getWalletByUserId_nonneg [OF n0' g1]
    show ?thesis
    proof (cases res1)
      case (Inl e)
      then show ?thesis using g Inr g1 n1 by (simp add: transferFunds_def)
    next
      case tw: (Inr tw)
      show ?thesis
      proof (cases "balance fw < a")
        case True
        then show ?thesis using g Inr g1 tw n1 by (simp add: transferFunds_def)
      next
        case False
        let ?f' = "fw\<lparr>balance := balance fw - a\<rparr>"
        let ?t' = "tw\<lparr>balance := balance tw + a\<rparr>"
        let ?db2 = "db1\<lparr>wallets := map (\<lambda>r. if w_id r = w_id ?f' then ?f' else r) (wallets db1)\<rparr>"
        let ?db3 = "?db2\<lparr>wallets := map (\<lambda>r. if w_id r = w_id ?t' then ?t' else r) (wallets ?db2)\<rparr>"
        have f: "wallet_nonneg ?f'"
          using n0 Inr False by (simp add: wallet_nonneg_def)
        have t: "wallet_nonneg ?t'"
          using n1 tw assms(2) by (simp add: wallet_nonneg_def)
        have n2: "wallets_nonneg ?db2"
          using n1 f by (intro nonneg_replace) simp_all
        have n3: "wallets_nonneg ?db3"
          using n2 t by (rule nonneg_replace)
        show ?thesis using g Inr g1 tw False n1 n2 n3
          by (simp add: transferFunds_def Let_def save_wallet_def insert_transaction_def
              wallets_nonneg_def)
      qed
    qed
  qed
qed

lemma handle_nonneg:
  "wallets_nonneg db \<Longrightarrow> amount_nonneg r \<Longrightarrow> wallets_nonneg (handle db r)"
  by (cases r)
     (simp_all add: post_deposits_verify_nonneg post_withdrawals_nonneg addFunds_nonneg
        withdrawFunds_nonneg transferFunds_nonneg)

lemma run_nonneg:
  "wallets_nonneg db \<Longrightarrow> list_all amount_nonneg rs \<Longrightarrow> wallets_nonneg (run db rs)"
  unfolding run_def
  by (induction rs arbitrary: db) (simp_all add: handle_nonneg)

lemma hold_rejected_route:
  assumes "u \<in> set (users db)" "findWalletByUserId db u = Some w"
    "0 < req_amount body" "balance w < req_amount body"
  shows "post_withdrawals F gw db u body = (Failure 400 ''Insufficient balance'', db)"
  using assms
  by (simp add: post_withdrawals_def withdrawals_until_gateway_def getWalletByUserId_existing)

lemma hold_rejected_stage1:
  assumes "findWalletById db (w_id wallet) = Some w" "balance w < a"
  shows "stage1_hold F db u wallet a = Inl ''Insufficient balance''"
  using assms by (simp add: stage1_hold_def)

text \<open>
  C1, as the code has it. Start from a database in which no wallet has a negative
  balance or pending balance, and run any sequence of deposit verifications, withdrawal
  requests (hold, then refund or settle), \<open>addFunds\<close>, \<open>withdrawFunds\<close> and
  \<open>transferFunds\<close> calls, under any faults and gateway answers, in which the amounts
  deposited and transferred are not negative. Then after every step no wallet has a
  negative balance or pending balance. In particular a withdrawal request for more than
  the balance is rejected with 400 \<open>Insufficient balance\<close> and changes nothing, and
  stage 1 itself throws \<open>Insufficient balance\<close> when the balance it re-reads is below
  the amount.
\<close>

theorem balances_never_negative:
  assumes "wallets_nonneg db" and "list_all amount_nonneg rs"
  shows "(\<forall>n. wallets_nonneg (run db (take n rs)))
       \<and> (\<forall>F gw u w body. u \<in> set (users db) \<and> findWalletByUserId db u = Some w
             \<and> 0 < req_amount body \<and> balance w < req_amount body \<longrightarrow>
             post_withdrawals F gw db u body = (Failure 400 ''Insufficient balance'', db))
       \<and> (\<forall>F u wallet w a. findWalletById db (w_id wallet) = Some w \<and> balance w < a \<longrightarrow>
             stage1_hold F db u wallet a = Inl ''Insufficient balance'')"
proof (intro conjI allI impI)
  fix n
  have "list_all amount_nonneg (take n rs)"
    using assms(2) by (auto simp: list_all_iff dest: in_set_takeD)
  with assms(1) show "wallets_nonneg (run db (take n rs))" by (rule run_nonneg)
next
  fix F gw u and w :: Wallet and body :: withdrawal_body
  assume "u \<in> set (users db) \<and> findWalletByUserId db u = Some w
             \<and> 0 < req_amount body \<and> balance w < req_amount body"
  then show "post_withdrawals F gw db u body = (Failure 400 ''Insufficient balance'', db)"
    by (simp add: hold_rejected_route)
next
  fix F u a and wallet w :: Wallet
  assume "findWalletById db (w_id wallet) = Some w \<and> balance w < a"
  then show "stage1_hold F db u wallet a = Inl ''Insufficient balance''"
    by (simp add: hold_rejected_stage1)
qed


lemmas service_defs = addFunds_def withdrawFunds_def transferFunds_def run_def
  wallets_nonneg_def wallet_nonneg_def db_two_users_def requests_example_def negative_transfer_def

theorem balances_never_negative_witness:
  "wallets_nonneg (db_two_users 0) \<and> list_all amount_nonneg requests_example
   \<and> wallets_nonneg (run (db_two_users 0) (take 2 requests_example))
   \<and> balances (run (db_two_users 0) (take 1 requests_example)) = [(500, 0)]
   \<and> balances (run (db_two_users 0) (take 2 requests_example)) = [(100, 0)]
   \<and> balances (run (db_two_users 0) requests_example) = [(50, 0), (50, 0)]"
proof -
  have h: "wallets_nonneg (db_two_users 0)" "list_all amount_nonneg requests_example"
    by (simp_all add: service_defs example_defs or_zero_def)
  from balances_never_negative [OF h]
  have "wallets_nonneg (run (db_two_users 0) (take 2 requests_example))"
    by blast
  moreover have "balances (run (db_two_users 0) (take 1 requests_example)) = [(500, 0)]"
    "balances (run (db_two_users 0) (take 2 requests_example)) = [(100, 0)]"
    "balances (run (db_two_users 0) requests_example) = [(50, 0), (50, 0)]"
    by (simp_all add: service_defs handler_defs example_defs balances_def)
  ultimately show ?thesis using h by simp
qed

text \<open>
  C1 as stated fails: \<open>transferFunds\<close> checks the sender's balance only, so a transfer of
  a negative amount takes the sum from the receiver, whose balance goes below zero.
\<close>

theorem negative_transfer_counterexample:
  "wallets_nonneg (db_two_users 10)
   \<and> balances (run (db_two_users 10) negative_transfer) = [(15, 0), (- 5, 0)]
   \<and> \<not> wallets_nonneg (run (db_two_users 10) negative_transfer)"
  by (simp add: service_defs handler_defs example_defs balances_def)

subsection \<open>Ledger replay\<close>

lemma foldl_add_sum: "foldl (\<lambda>acc l. acc + f l) a xs = a + sum_list (map f xs)"
  by (induction xs arbitrary: a) (simp_all add: add.assoc)

lemma ledger_replay_sum:
  "ledger_replay i ls = sum_list (map signed_amount (filter (\<lambda>l. led_wallet_id l = i) ls))"
  by (simp add: ledger_replay_def foldl_add_sum)



lemma balance_replay_Nil [simp]: "balance_replay i [] = 0"
  by (simp add: balance_replay_def ledger_replay_sum)



























end
